theory Spec2Isabelle
  imports Main
begin

section \<open>Data model\<close>

text \<open>
  The user row of \<^verbatim>\<open>src/managers/user.ts\<close>. Timestamps are JavaScript dates, read as
  integer milliseconds since the epoch; a nullable column is an option. The field
  \<open>id\<close> of the source is named \<open>id_user\<close> here (\<open>id\<close> is the identity function of HOL).
\<close>

record user =
  id_user :: nat
  email :: string
  encrypted_password :: "string option"
  email_verified :: bool
  email_verified_at :: "int option"
  verify_email_token :: "string option"
  verify_email_sent_at :: "int option"
  magic_link_token :: "string option"
  magic_link_sent_at :: "int option"
  reset_password_token :: "string option"
  reset_password_sent_at :: "int option"
  sign_in_count :: int
  last_sign_in_at :: "int option"
  given_name :: "string option"
  family_name :: "string option"
  phone_number :: "string option"
  job :: "string option"

text \<open>
  A partial user, the object literal handed to \<^verbatim>\<open>create\<close> and \<^verbatim>\<open>update\<close>, is the list of
  its key/value pairs: a key that is absent from the list is not supplied, a key
  supplied with \<^verbatim>\<open>null\<close> carries \<open>None\<close>.
\<close>

datatype field =
    Email string
  | Encrypted_password "string option"
  | Email_verified bool
  | Email_verified_at "int option"
  | Verify_email_token "string option"
  | Verify_email_sent_at "int option"
  | Magic_link_token "string option"
  | Magic_link_sent_at "int option"
  | Reset_password_token "string option"
  | Reset_password_sent_at "int option"
  | Sign_in_count int
  | Last_sign_in_at "int option"
  | Given_name "string option"
  | Family_name "string option"
  | Phone_number "string option"
  | Job "string option"

text \<open>The error classes imported from \<^verbatim>\<open>../errors\<close>.\<close>

datatype error =
    EmailUnavailableError
  | EmailVerifiedAlreadyError
  | InvalidCredentialsError
  | InvalidEmailError "string option"
  | InvalidMagicLinkError
  | InvalidTokenError
  | LeakedPasswordError
  | UserNotFoundError
  | WeakPasswordError

text \<open>The argument of \<^verbatim>\<open>sendMail\<close>.\<close>

record mail =
  to :: "string list"
  subject :: string
  template :: string
  params :: "(string \<times> string) list"

text \<open>
  A store write, as it is issued: the row it targets and the partial user it carries.
\<close>

datatype store_write = Create nat "field list" | Update nat "field list"


fun payload :: "store_write \<Rightarrow> field list" where
  "payload (Create i p) = p"
| "payload (Update i p) = p"

text \<open>
  The world an operation runs in: the rows of the credential store, the mails handed to
  the notification sink, and the trace of the writes issued to the store.
\<close>

record state =
  rows :: "user list"
  outbox :: "mail list"
  writes :: "store_write list"

text \<open>
  The collaborators the manager imports and whose code is outside the manager: the
  clock read by \<^verbatim>\<open>new Date()\<close> (one reading for a call), the password services, the
  token generators (the token the next call of the generator returns), the breach
  corpus, the deliverability service and the durations of \<^verbatim>\<open>../env\<close> in minutes.
  \<open>isExpired_null\<close> is what the expiration clock answers for a null timestamp.
\<close>

record env =
  now :: int
  isExpired_null :: bool
  isPasswordSecure :: "string \<Rightarrow> string \<Rightarrow> bool"
  hasPasswordBeenPwned :: "string \<Rightarrow> bool"
  hashPassword :: "string \<Rightarrow> string"
  validatePassword :: "string \<Rightarrow> string option \<Rightarrow> bool"
  generateToken :: string
  generatePinToken :: string
  isEmailSafeToSendTransactional :: "string \<Rightarrow> bool \<times> string option"
  getDidYouMeanSuggestion :: "string \<Rightarrow> string option"
  MAGIC_LINK_TOKEN_EXPIRATION_DURATION_IN_MINUTES :: int
  MAX_DURATION_BETWEEN_TWO_EMAIL_ADDRESS_VERIFICATION_IN_MINUTES :: int
  RESET_PASSWORD_TOKEN_EXPIRATION_DURATION_IN_MINUTES :: int
  VERIFY_EMAIL_TOKEN_EXPIRATION_DURATION_IN_MINUTES :: int

section \<open>Expiration clock\<close>

text \<open>
  Modelled from the spec: \<^verbatim>\<open>services/is-expired\<close> is not among the sources. The spec
  gives \<open>now - sentAt > durationMinutes\<close>, the exact boundary not yet expired, and says
  nothing of a null \<open>sentAt\<close>, whose answer is the parameter \<open>isExpired_null\<close>. Dates
  are in milliseconds, so a minute is 60000.
\<close>

definition isExpired :: "env \<Rightarrow> int option \<Rightarrow> int \<Rightarrow> bool" where
  "isExpired e sentAt durationMinutes =
     (case sentAt of
        None \<Rightarrow> isExpired_null e
      | Some t \<Rightarrow> now e - t > durationMinutes * 60000)"

section \<open>Credential store\<close>

text \<open>
  Modelled from the spec: \<^verbatim>\<open>repositories/user\<close> is not among the sources. The spec
  gives the contract: lookups by email (a case-insensitive key), by magic-link token and
  by reset-password token that return an absent result when no row matches; \<open>create\<close>,
  which assigns the identifier and returns the row; \<open>update\<close>, which merges only the
  supplied fields into the row of the given identifier and returns it.
\<close>

text \<open>
  Modelled from the spec: the email is a case-insensitive key. Two addresses are the same
  key when they agree once the letters A to Z are lowered.
\<close>

definition lower_char :: "char \<Rightarrow> char" where
  "lower_char c =
     (case map_of (zip ''ABCDEFGHIJKLMNOPQRSTUVWXYZ'' ''abcdefghijklmnopqrstuvwxyz'') c of
        None \<Rightarrow> c
      | Some d \<Rightarrow> d)"

definition email_key :: "string \<Rightarrow> string" where
  "email_key s = map lower_char s"

text \<open>
  Modelled from the spec: the merge of the supplied fields into a row, key by key in the
  order of the object literal; a field that is not supplied keeps its value.
\<close>

fun assign :: "field \<Rightarrow> user \<Rightarrow> user" where
  "assign (Email v) u = u\<lparr>email := v\<rparr>"
| "assign (Encrypted_password v) u = u\<lparr>encrypted_password := v\<rparr>"
| "assign (Email_verified v) u = u\<lparr>email_verified := v\<rparr>"
| "assign (Email_verified_at v) u = u\<lparr>email_verified_at := v\<rparr>"
| "assign (Verify_email_token v) u = u\<lparr>verify_email_token := v\<rparr>"
| "assign (Verify_email_sent_at v) u = u\<lparr>verify_email_sent_at := v\<rparr>"
| "assign (Magic_link_token v) u = u\<lparr>magic_link_token := v\<rparr>"
| "assign (Magic_link_sent_at v) u = u\<lparr>magic_link_sent_at := v\<rparr>"
| "assign (Reset_password_token v) u = u\<lparr>reset_password_token := v\<rparr>"
| "assign (Reset_password_sent_at v) u = u\<lparr>reset_password_sent_at := v\<rparr>"
| "assign (Sign_in_count v) u = u\<lparr>sign_in_count := v\<rparr>"
| "assign (Last_sign_in_at v) u = u\<lparr>last_sign_in_at := v\<rparr>"
| "assign (Given_name v) u = u\<lparr>given_name := v\<rparr>"
| "assign (Family_name v) u = u\<lparr>family_name := v\<rparr>"
| "assign (Phone_number v) u = u\<lparr>phone_number := v\<rparr>"
| "assign (Job v) u = u\<lparr>job := v\<rparr>"

fun merge :: "field list \<Rightarrow> user \<Rightarrow> user" where
  "merge [] u = u"
| "merge (f # fs) u = merge fs (assign f u)"

text \<open>
  Modelled from the spec: the row a \<open>create\<close> starts from, before the supplied fields are
  merged: the nullable attributes null, \<open>email_verified\<close> false, the counter at 0. The
  identifier assigned at creation is above every identifier of the table.
\<close>

definition new_user :: "nat \<Rightarrow> user" where
  "new_user i =
     \<lparr>id_user = i, email = [], encrypted_password = None,
      email_verified = False, email_verified_at = None,
      verify_email_token = None, verify_email_sent_at = None,
      magic_link_token = None, magic_link_sent_at = None,
      reset_password_token = None, reset_password_sent_at = None,
      sign_in_count = 0, last_sign_in_at = None,
      given_name = None, family_name = None, phone_number = None, job = None\<rparr>"

fun fresh_id :: "user list \<Rightarrow> nat" where
  "fresh_id [] = 1"
| "fresh_id (u # us) = max (Suc (id_user u)) (fresh_id us)"

text \<open>
  Modelled from the spec: a lookup returns the first row that matches, or the absent
  result.
\<close>

definition findByEmail :: "state \<Rightarrow> string \<Rightarrow> user option" where
  "findByEmail s em = List.find (\<lambda>u. email_key (email u) = email_key em) (rows s)"

definition findByMagicLinkToken :: "state \<Rightarrow> string \<Rightarrow> user option" where
  "findByMagicLinkToken s tok = List.find (\<lambda>u. magic_link_token u = Some tok) (rows s)"

definition findByResetPasswordToken :: "state \<Rightarrow> string \<Rightarrow> user option" where
  "findByResetPasswordToken s tok =
     List.find (\<lambda>u. reset_password_token u = Some tok) (rows s)"

text \<open>
  Modelled from the spec: \<open>create\<close> appends the new row and returns it; \<open>update\<close> merges
  the supplied fields into the row of the identifier and returns that row, or the absent
  result when the table has none. Both leave their write in the trace.
\<close>

definition create :: "field list \<Rightarrow> state \<Rightarrow> user \<times> state" where
  "create p s =
     (let u = merge p (new_user (fresh_id (rows s)))
      in (u, s\<lparr>rows := rows s @ [u], writes := writes s @ [Create (id_user u) p]\<rparr>))"

definition update :: "nat \<Rightarrow> field list \<Rightarrow> state \<Rightarrow> user option \<times> state" where
  "update i p s =
     (let rs = map (\<lambda>r. if id_user r = i then merge p r else r) (rows s)
      in (List.find (\<lambda>r. id_user r = i) rs,
          s\<lparr>rows := rs, writes := writes s @ [Update i p]\<rparr>))"

text \<open>
  Modelled from the spec: \<^verbatim>\<open>connectors/sendinblue\<close> is not among the sources. The
  notification sink takes the mail; nothing comes back to the manager.
\<close>

definition sendMail :: "mail \<Rightarrow> state \<Rightarrow> state" where
  "sendMail m s = s\<lparr>outbox := outbox s @ [m]\<rparr>"

section \<open>Credential lifecycle manager\<close>

text \<open>
  The operations of \<^verbatim>\<open>src/managers/user.ts\<close>, in the order of the file. Each takes the
  state and returns what the promise resolves to (\<open>Inr\<close>) or the error it rejects with
  (\<open>Inl\<close>), together with the state it leaves. \<^verbatim>\<open>isEmpty(user)\<close> is the absent result
  of a lookup; \<^verbatim>\<open>!token\<close> on a string is the empty string.
\<close>

definition falsy :: "string option \<Rightarrow> bool" where
  "falsy d = (d = None \<or> d = Some [])"

definition startLogin ::
  "env \<Rightarrow> string \<Rightarrow> state \<Rightarrow> (error + string \<times> bool) \<times> state" where
  "startLogin e em s =
     (let userExists = (findByEmail s em \<noteq> None)
      in if userExists then (Inr (em, True), s)
         else (case isEmailSafeToSendTransactional e em of
                 (isEmailSafeToSend, didYouMean) \<Rightarrow>
                   if \<not> isEmailSafeToSend
                   then (Inl (InvalidEmailError
                                (if falsy didYouMean then getDidYouMeanSuggestion e em
                                 else didYouMean)), s)
                   else (Inr (em, False), s)))"

definition login ::
  "env \<Rightarrow> string \<Rightarrow> string \<Rightarrow> state \<Rightarrow> (error + user option) \<times> state" where
  "login e em password s =
     (case findByEmail s em of
        None \<Rightarrow> (Inl InvalidCredentialsError, s)
      | Some u \<Rightarrow>
          if \<not> validatePassword e password (encrypted_password u)
          then (Inl InvalidCredentialsError, s)
          else (case update (id_user u)
                       [Sign_in_count (sign_in_count u + 1),
                        Last_sign_in_at (Some (now e))] s of
                  (r, s') \<Rightarrow> (Inr r, s')))"

definition signup ::
  "env \<Rightarrow> string \<Rightarrow> string \<Rightarrow> state \<Rightarrow> (error + user) \<times> state" where
  "signup e em password s =
     (if findByEmail s em \<noteq> None then (Inl EmailUnavailableError, s)
      else if \<not> isPasswordSecure e password em then (Inl WeakPasswordError, s)
      else if hasPasswordBeenPwned e password then (Inl LeakedPasswordError, s)
      else (let hashedPassword = hashPassword e password
            in case create [Email em,
                            Encrypted_password (Some hashedPassword),
                            Last_sign_in_at (Some (now e))] s of
                 (r, s') \<Rightarrow> (Inr r, s')))"

text \<open>
  \<^verbatim>\<open>token.replace(/(.{3})/g, '$1 ')\<close>: scanning from the left, every three characters
  that are not line terminators are followed by a space; where the three characters at
  the scanning position hold a line terminator the scan moves on by one character.
\<close>

definition is_line_terminator :: "char \<Rightarrow> bool" where
  "is_line_terminator c = (c = CHR 0x0A \<or> c = CHR 0x0D)"

fun readable :: "string \<Rightarrow> string" where
  "readable (a # b # c # cs) =
     (if is_line_terminator a \<or> is_line_terminator b \<or> is_line_terminator c
      then a # readable (b # c # cs)
      else a # b # c # CHR '' '' # readable cs)"
| "readable cs = cs"

definition sendEmailAddressVerificationEmail ::
  "env \<Rightarrow> string \<Rightarrow> bool \<Rightarrow> state \<Rightarrow> (error + bool) \<times> state" where
  "sendEmailAddressVerificationEmail e em checkBeforeSend s =
     (case findByEmail s em of
        None \<Rightarrow> (Inl UserNotFoundError, s)
      | Some u \<Rightarrow>
          if email_verified u then (Inl EmailVerifiedAlreadyError, s)
          else if checkBeforeSend
                  \<and> \<not> isExpired e (verify_email_sent_at u)
                        (VERIFY_EMAIL_TOKEN_EXPIRATION_DURATION_IN_MINUTES e)
          then (Inr False, s)
          else (let verify_email_token = generatePinToken e;
                    readable_verify_email_token = readable verify_email_token;
                    s1 = snd (update (id_user u)
                                [Verify_email_token (Some verify_email_token),
                                 Verify_email_sent_at (Some (now e))] s);
                    s2 = sendMail
                           \<lparr>to = [email u],
                            subject = ''V'' @ [CHR 0xE9] @ ''rification de votre adresse email'',
                            template = ''verify-email'',
                            params = [(''verify_email_token'', readable_verify_email_token)]\<rparr>
                           s1
                in (Inr True, s2)))"

definition verifyEmail ::
  "env \<Rightarrow> string \<Rightarrow> string \<Rightarrow> state \<Rightarrow> (error + user option) \<times> state" where
  "verifyEmail e em token s =
     (case findByEmail s em of
        None \<Rightarrow> (Inl UserNotFoundError, s)
      | Some u \<Rightarrow>
          if verify_email_token u \<noteq> Some token then (Inl InvalidTokenError, s)
          else (let isTokenExpired =
                      isExpired e (verify_email_sent_at u)
                        (VERIFY_EMAIL_TOKEN_EXPIRATION_DURATION_IN_MINUTES e)
                in if isTokenExpired then (Inl InvalidTokenError, s)
                   else (case update (id_user u)
                                [Email_verified True,
                                 Email_verified_at (Some (now e)),
                                 Verify_email_token None,
                                 Verify_email_sent_at None] s of
                           (r, s') \<Rightarrow> (Inr r, s'))))"

definition updateEmailAddressVerificationStatus ::
  "env \<Rightarrow> string \<Rightarrow> state \<Rightarrow> (error + user option \<times> bool) \<times> state" where
  "updateEmailAddressVerificationStatus e em s =
     (case findByEmail s em of
        None \<Rightarrow> (Inl UserNotFoundError, s)
      | Some u \<Rightarrow>
          if email_verified u
             \<and> isExpired e (email_verified_at u)
                 (MAX_DURATION_BETWEEN_TWO_EMAIL_ADDRESS_VERIFICATION_IN_MINUTES e)
          then (case update (id_user u) [Email_verified False] s of
                  (updatedUser, s') \<Rightarrow> (Inr (updatedUser, True), s'))
          else (Inr (Some u, False), s))"

definition sendSendMagicLinkEmail ::
  "env \<Rightarrow> string \<Rightarrow> string \<Rightarrow> state \<Rightarrow> (error + bool) \<times> state" where
  "sendSendMagicLinkEmail e em host s =
     (let (u, s0) = (case findByEmail s em of
                       None \<Rightarrow> create [Email em, Last_sign_in_at (Some (now e))] s
                     | Some u \<Rightarrow> (u, s));
          magicLinkToken = generateToken e;
          s1 = snd (update (id_user u)
                      [Magic_link_token (Some magicLinkToken),
                       Magic_link_sent_at (Some (now e))] s0);
          s2 = sendMail
                 \<lparr>to = [email u],
                  subject = ''Lien de connexion '' @ [CHR 0xE0] @ '' MonComptePro'',
                  template = ''magic-link'',
                  params = [(''magic_link'',
                             host @ ''/users/sign-in-with-magic-link?magic_link_token=''
                               @ magicLinkToken)]\<rparr>
                 s1
      in (Inr True, s2))"

definition loginWithMagicLink ::
  "env \<Rightarrow> string \<Rightarrow> state \<Rightarrow> (error + user option) \<times> state" where
  "loginWithMagicLink e token s =
     (if token = [] then (Inl InvalidMagicLinkError, s)
      else (case findByMagicLinkToken s token of
              None \<Rightarrow> (Inl InvalidMagicLinkError, s)
            | Some u \<Rightarrow>
                (let isTokenExpired =
                       isExpired e (magic_link_sent_at u)
                         (MAGIC_LINK_TOKEN_EXPIRATION_DURATION_IN_MINUTES e)
                 in if isTokenExpired then (Inl InvalidMagicLinkError, s)
                    else (case update (id_user u)
                                 [Email_verified True,
                                  Email_verified_at (Some (now e)),
                                  Magic_link_token None,
                                  Magic_link_sent_at None,
                                  Last_sign_in_at (Some (now e))] s of
                            (r, s') \<Rightarrow> (Inr r, s')))))"

definition sendResetPasswordEmail ::
  "env \<Rightarrow> string \<Rightarrow> string \<Rightarrow> state \<Rightarrow> (error + bool) \<times> state" where
  "sendResetPasswordEmail e em host s =
     (case findByEmail s em of
        None \<Rightarrow> (Inr True, s)
      | Some u \<Rightarrow>
          (let resetPasswordToken = generateToken e;
               s1 = snd (update (id_user u)
                           [Reset_password_token (Some resetPasswordToken),
                            Reset_password_sent_at (Some (now e))] s);
               s2 = sendMail
                      \<lparr>to = [email u],
                       subject = ''Instructions pour la r'' @ [CHR 0xE9]
                                   @ ''initialisation du mot de passe'',
                       template = ''reset-password'',
                       params = [(''reset_password_link'',
                                  host @ ''/users/change-password?reset_password_token=''
                                    @ resetPasswordToken)]\<rparr>
                      s1
           in (Inr True, s2)))"

definition changePassword ::
  "env \<Rightarrow> string \<Rightarrow> string \<Rightarrow> state \<Rightarrow> (error + user option) \<times> state" where
  "changePassword e token password s =
     (if token = [] then (Inl InvalidTokenError, s)
      else (case findByResetPasswordToken s token of
              None \<Rightarrow> (Inl InvalidTokenError, s)
            | Some u \<Rightarrow>
                (let isTokenExpired =
                       isExpired e (reset_password_sent_at u)
                         (RESET_PASSWORD_TOKEN_EXPIRATION_DURATION_IN_MINUTES e)
                 in if isTokenExpired then (Inl InvalidTokenError, s)
                    else if \<not> isPasswordSecure e password (email u)
                    then (Inl WeakPasswordError, s)
                    else if hasPasswordBeenPwned e password
                    then (Inl LeakedPasswordError, s)
                    else (let hashedPassword = hashPassword e password
                          in case update (id_user u)
                                    [Encrypted_password (Some hashedPassword),
                                     Email_verified True,
                                     Email_verified_at (Some (now e)),
                                     Reset_password_token None,
                                     Reset_password_sent_at None] s of
                               (r, s') \<Rightarrow> (Inr r, s')))))"

definition updatePersonalInformations ::
  "nat \<Rightarrow> string option \<Rightarrow> string option \<Rightarrow> string option \<Rightarrow> string option
     \<Rightarrow> state \<Rightarrow> (error + user option) \<times> state" where
  "updatePersonalInformations userId gn fn pn jb s =
     (case update userId [Given_name gn, Family_name fn, Phone_number pn, Job jb] s of
        (r, s') \<Rightarrow> (Inr r, s'))"

section \<open>Calls and reachable states\<close>

text \<open>
  A call of a public operation with its arguments; \<open>exec\<close> is the state the call
  leaves, \<open>failed\<close> whether it rejects. The states the manager can bring the store to
  are those reached from the empty store by calls, each under its own environment.
\<close>

datatype call =
    StartLogin string
  | Login string string
  | Signup string string
  | SendEmailAddressVerificationEmail string bool
  | VerifyEmail string string
  | UpdateEmailAddressVerificationStatus string
  | SendSendMagicLinkEmail string string
  | LoginWithMagicLink string
  | SendResetPasswordEmail string string
  | ChangePassword string string
  | UpdatePersonalInformations nat "string option" "string option" "string option"
      "string option"

fun exec :: "env \<Rightarrow> call \<Rightarrow> state \<Rightarrow> state" where
  "exec e (StartLogin em) s = snd (startLogin e em s)"
| "exec e (Login em pw) s = snd (login e em pw s)"
| "exec e (Signup em pw) s = snd (signup e em pw s)"
| "exec e (SendEmailAddressVerificationEmail em c) s =
     snd (sendEmailAddressVerificationEmail e em c s)"
| "exec e (VerifyEmail em tok) s = snd (verifyEmail e em tok s)"
| "exec e (UpdateEmailAddressVerificationStatus em) s =
     snd (updateEmailAddressVerificationStatus e em s)"
| "exec e (SendSendMagicLinkEmail em host) s = snd (sendSendMagicLinkEmail e em host s)"
| "exec e (LoginWithMagicLink tok) s = snd (loginWithMagicLink e tok s)"
| "exec e (SendResetPasswordEmail em host) s = snd (sendResetPasswordEmail e em host s)"
| "exec e (ChangePassword tok pw) s = snd (changePassword e tok pw s)"
| "exec e (UpdatePersonalInformations i gn fn pn jb) s =
     snd (updatePersonalInformations i gn fn pn jb s)"


definition empty_state :: state where
  "empty_state = \<lparr>rows = [], outbox = [], writes = []\<rparr>"

inductive reachable :: "state \<Rightarrow> bool" where
  reachable_empty: "reachable empty_state"
| reachable_exec: "reachable s \<Longrightarrow> reachable (exec e c s)"

section \<open>A concrete environment\<close>

text \<open>
  An environment to run the operations in: passwords of at least ten characters that do
  not hold the email are secure, one password is in the breach corpus, the hash prefixes
  its input, every address is deliverable, and the durations are 60, 129600, 60 and 60
  minutes.
\<close>

definition env0 :: env where
  "env0 =
     \<lparr>now = 1000000,
      isExpired_null = True,
      isPasswordSecure = (\<lambda>p em. 10 \<le> length p \<and> p \<noteq> em),
      hasPasswordBeenPwned = (\<lambda>p. p = ''password1234''),
      hashPassword = (\<lambda>p. ''h:'' @ p),
      validatePassword = (\<lambda>p h. h = Some (''h:'' @ p)),
      generateToken = ''tok-1'',
      generatePinToken = ''123456'',
      isEmailSafeToSendTransactional = (\<lambda>em. (True, None)),
      getDidYouMeanSuggestion = (\<lambda>em. None),
      MAGIC_LINK_TOKEN_EXPIRATION_DURATION_IN_MINUTES = 60,
      MAX_DURATION_BETWEEN_TWO_EMAIL_ADDRESS_VERIFICATION_IN_MINUTES = 129600,
      RESET_PASSWORD_TOKEN_EXPIRATION_DURATION_IN_MINUTES = 60,
      VERIFY_EMAIL_TOKEN_EXPIRATION_DURATION_IN_MINUTES = 60\<rparr>"

section \<open>Properties of rows and writes\<close>

text \<open>
  A token and its timestamp are paired when both are null or both are set; a row is well
  paired when its three token families are.
\<close>

definition paired :: "'a option \<Rightarrow> 'b option \<Rightarrow> bool" where
  "paired tok sent = ((tok = None) = (sent = None))"

definition token_pairs_ok :: "user \<Rightarrow> bool" where
  "token_pairs_ok u =
     (paired (verify_email_token u) (verify_email_sent_at u)
      \<and> paired (magic_link_token u) (magic_link_sent_at u)
      \<and> paired (reset_password_token u) (reset_password_sent_at u))"

text \<open>
  What a key of a partial user does to a token family: \<open>token_written\<close> is \<open>Some True\<close>
  when the key sets the family's token, \<open>Some False\<close> when it clears it and \<open>None\<close> when
  it is another key; \<open>sent_at_written\<close> is the same for the family's timestamp. A partial
  user writes the families together when, family by family, its token keys and its
  timestamp keys do the same.
\<close>

datatype family = Verify_email | Magic_link | Reset_password

fun token_written :: "family \<Rightarrow> field \<Rightarrow> bool option" where
  "token_written Verify_email (Verify_email_token v) = Some (v \<noteq> None)"
| "token_written Magic_link (Magic_link_token v) = Some (v \<noteq> None)"
| "token_written Reset_password (Reset_password_token v) = Some (v \<noteq> None)"
| "token_written fam f = None"

fun sent_at_written :: "family \<Rightarrow> field \<Rightarrow> bool option" where
  "sent_at_written Verify_email (Verify_email_sent_at v) = Some (v \<noteq> None)"
| "sent_at_written Magic_link (Magic_link_sent_at v) = Some (v \<noteq> None)"
| "sent_at_written Reset_password (Reset_password_sent_at v) = Some (v \<noteq> None)"
| "sent_at_written fam f = None"

definition written_together :: "field list \<Rightarrow> bool" where
  "written_together p =
     (list_all
        (\<lambda>fam. List.map_filter (token_written fam) p
               = List.map_filter (sent_at_written fam) p)
        [Verify_email, Magic_link, Reset_password])"

definition store_inv :: "state \<Rightarrow> bool" where
  "store_inv s =
     (list_all token_pairs_ok (rows s)
      \<and> list_all (\<lambda>w. written_together (payload w)) (writes s))"



text \<open>A row without the two fields a password login writes.\<close>

definition login_frame :: "user \<Rightarrow> user" where
  "login_frame u = u\<lparr>sign_in_count := 0, last_sign_in_at := None\<rparr>"

section \<open>A concrete run\<close>

text \<open>
  A signup followed by the issue of a verification PIN, of a reset-password token and of
  a magic link, the last under another spelling of the same address.
\<close>

definition s_signed_up :: state where
  "s_signed_up = exec env0 (Signup ''a@b.com'' ''Password123!'') empty_state"

definition s_pending :: state where
  "s_pending =
     exec env0 (SendSendMagicLinkEmail ''A@B.com'' ''https://host'')
       (exec env0 (SendResetPasswordEmail ''a@b.com'' ''https://host'')
          (exec env0 (SendEmailAddressVerificationEmail ''a@b.com'' True) s_signed_up))"

definition user1 :: user where
  "user1 =
     \<lparr>id_user = 1, email = ''a@b.com'', encrypted_password = Some ''h:Password123!'',
      email_verified = False, email_verified_at = None,
      verify_email_token = Some ''123456'', verify_email_sent_at = Some 1000000,
      magic_link_token = Some ''tok-1'', magic_link_sent_at = Some 1000000,
      reset_password_token = Some ''tok-1'', reset_password_sent_at = Some 1000000,
      sign_in_count = 0, last_sign_in_at = Some 1000000,
      given_name = None, family_name = None, phone_number = None, job = None\<rparr>"

text \<open>A later call: one minute on, with another token from the generator.\<close>

definition env1 :: env where
  "env1 = env0\<lparr>now := 1060000, generateToken := ''tok-2''\<rparr>"

section \<open>Store lemmas\<close>

lemma id_user_assign: "id_user (assign f u) = id_user u"
  by (cases f) simp_all

lemma id_user_merge: "id_user (merge p u) = id_user u"
  by (induction p arbitrary: u) (simp_all add: id_user_assign)

lemma rows_update:
  "rows (snd (update i p s)) = map (\<lambda>r. if id_user r = i then merge p r else r) (rows s)"
  by (simp add: update_def Let_def)

lemma writes_update: "writes (snd (update i p s)) = writes s @ [Update i p]"
  by (simp add: update_def Let_def)

lemma outbox_update: "outbox (snd (update i p s)) = outbox s"
  by (simp add: update_def Let_def)

lemma rows_create:
  "rows (snd (create p s)) = rows s @ [merge p (new_user (fresh_id (rows s)))]"
  by (simp add: create_def Let_def)

lemma writes_create:
  "writes (snd (create p s)) = writes s @ [Create (fresh_id (rows s)) p]"
  by (simp add: create_def Let_def id_user_merge new_user_def)

lemma outbox_create: "outbox (snd (create p s)) = outbox s"
  by (simp add: create_def Let_def)

lemma fst_create: "fst (create p s) = merge p (new_user (fresh_id (rows s)))"
  by (simp add: create_def Let_def)

lemma rows_sendMail: "rows (sendMail m s) = rows s"
  by (simp add: sendMail_def)

lemma writes_sendMail: "writes (sendMail m s) = writes s"
  by (simp add: sendMail_def)

lemma outbox_sendMail: "outbox (sendMail m s) = outbox s @ [m]"
  by (simp add: sendMail_def)

lemmas store_simps =
  rows_update writes_update outbox_update rows_create writes_create outbox_create
  fst_create rows_sendMail writes_sendMail outbox_sendMail

lemma fresh_id_gt: "r \<in> set rs \<Longrightarrow> id_user r < fresh_id rs"
  by (induction rs) auto

lemma map_unchanged_fresh:
  "map (\<lambda>r. if id_user r = fresh_id rs then f r else r) rs = rs"
  by (rule map_idI) (auto dest: fresh_id_gt)

lemma find_Some_mem: "List.find P xs = Some u \<Longrightarrow> u \<in> set xs \<and> P u"
  by (induction xs) (auto split: if_splits)

lemma find_snoc:
  "List.find P (xs @ [x]) =
     (case List.find P xs of Some y \<Rightarrow> Some y | None \<Rightarrow> if P x then Some x else None)"
  by (induction xs) auto

text \<open>
  A lookup that found \<open>u\<close> finds the merged \<open>u\<close> after an update of \<open>u\<close>'s identifier,
  when the merge leaves the looked-up key alone.
\<close>

lemma find_map_update:
  assumes "List.find P xs = Some u" and "\<And>r. P (f r) = P r"
  shows "List.find P (map (\<lambda>r. if id_user r = id_user u then f r else r) xs) = Some (f u)"
  using assms(1)
proof (induction xs)
  case Nil
  then show ?case by simp
next
  case (Cons x xs)
  show ?case
  proof (cases "P x")
    case True
    with Cons.prems have "x = u" by simp
    with True show ?thesis by (simp add: assms(2))
  next
    case False
    with Cons.prems have "List.find P xs = Some u" by simp
    with False Cons.IH show ?thesis by (simp add: assms(2))
  qed
qed

text \<open>An update of the identifier of a stored row returns a merged row of that identifier.\<close>

lemma find_id_after_update:
  assumes "u \<in> set xs" and "\<And>r. id_user (f r) = id_user r"
  shows "\<exists>r\<in>set xs. id_user r = id_user u \<and>
           List.find (\<lambda>r. id_user r = id_user u)
             (map (\<lambda>r. if id_user r = id_user u then f r else r) xs) = Some (f r)"
  using assms(1)
proof (induction xs)
  case Nil
  then show ?case by simp
next
  case (Cons x xs)
  show ?case
  proof (cases "id_user x = id_user u")
    case True
    then show ?thesis by (simp add: assms(2))
  next
    case False
    with Cons.prems have "u \<in> set xs" by auto
    from Cons.IH [OF this] False show ?thesis by (auto simp: assms(2))
  qed
qed

text \<open>
  Two tables that agree under a view of the rows give lookups that agree under it, for a
  lookup key the view keeps.
\<close>

lemma find_frame:
  assumes "map g xs = map g ys" and "\<And>r. P r = Q (g r)"
  shows "map_option g (List.find P xs) = map_option g (List.find P ys)"
  using assms(1)
proof (induction xs arbitrary: ys)
  case Nil
  then show ?case by simp
next
  case (Cons x xs)
  then obtain y ys' where ys: "ys = y # ys'" "g x = g y" "map g xs = map g ys'"
    by (cases ys) auto
  from Cons.IH [OF ys(3)] ys(2) show ?case
    by (simp add: ys(1) assms(2))
qed

section \<open>Evaluation\<close>

lemmas op_defs = startLogin_def login_def signup_def sendEmailAddressVerificationEmail_def
  verifyEmail_def updateEmailAddressVerificationStatus_def sendSendMagicLinkEmail_def
  loginWithMagicLink_def sendResetPasswordEmail_def changePassword_def
  updatePersonalInformations_def

lemmas eval_defs = op_defs findByEmail_def findByMagicLinkToken_def
  findByResetPasswordToken_def create_def update_def sendMail_def new_user_def
  email_key_def lower_char_def isExpired_def env0_def empty_state_def
  is_line_terminator_def Let_def

section \<open>The merge and the token pairs\<close>

text \<open>
  After a merge, a property of a field that each key either sets or leaves alone has the
  value the last key setting it gave, or the value it had.
\<close>

lemma merge_last_writer:
  assumes "\<And>f u. g (assign f u) = (case w f of None \<Rightarrow> g u | Some v \<Rightarrow> v)"
  shows "g (merge p u) =
           (case List.map_filter w p of [] \<Rightarrow> g u | b # bs \<Rightarrow> last (b # bs))"
proof (induction p arbitrary: u)
  case Nil
  then show ?case by (simp add: List.map_filter_simps)
next
  case (Cons f fs)
  show ?case
    by (cases "w f") (simp_all add: Cons.IH assms List.map_filter_simps split: list.splits)
qed

lemma merge_keeps_pairs:
  assumes wt: "written_together p" and ok: "token_pairs_ok u"
  shows "token_pairs_ok (merge p u)"
proof -
  have vt: "(verify_email_token (merge p u) \<noteq> None) =
      (case List.map_filter (token_written Verify_email) p of
         [] \<Rightarrow> verify_email_token u \<noteq> None | b # bs \<Rightarrow> last (b # bs))"
    by (rule merge_last_writer [of "\<lambda>u. verify_email_token u \<noteq> None"], case_tac f) simp_all
  have vs: "(verify_email_sent_at (merge p u) \<noteq> None) =
      (case List.map_filter (sent_at_written Verify_email) p of
         [] \<Rightarrow> verify_email_sent_at u \<noteq> None | b # bs \<Rightarrow> last (b # bs))"
    by (rule merge_last_writer [of "\<lambda>u. verify_email_sent_at u \<noteq> None"], case_tac f) simp_all
  have mt: "(magic_link_token (merge p u) \<noteq> None) =
      (case List.map_filter (token_written Magic_link) p of
         [] \<Rightarrow> magic_link_token u \<noteq> None | b # bs \<Rightarrow> last (b # bs))"
    by (rule merge_last_writer [of "\<lambda>u. magic_link_token u \<noteq> None"], case_tac f) simp_all
  have ms: "(magic_link_sent_at (merge p u) \<noteq> None) =
      (case List.map_filter (sent_at_written Magic_link) p of
         [] \<Rightarrow> magic_link_sent_at u \<noteq> None | b # bs \<Rightarrow> last (b # bs))"
    by (rule merge_last_writer [of "\<lambda>u. magic_link_sent_at u \<noteq> None"], case_tac f) simp_all
  have rt: "(reset_password_token (merge p u) \<noteq> None) =
      (case List.map_filter (token_written Reset_password) p of
         [] \<Rightarrow> reset_password_token u \<noteq> None | b # bs \<Rightarrow> last (b # bs))"
    by (rule merge_last_writer [of "\<lambda>u. reset_password_token u \<noteq> None"], case_tac f) simp_all
  have rs: "(reset_password_sent_at (merge p u) \<noteq> None) =
      (case List.map_filter (sent_at_written Reset_password) p of
         [] \<Rightarrow> reset_password_sent_at u \<noteq> None | b # bs \<Rightarrow> last (b # bs))"
    by (rule merge_last_writer [of "\<lambda>u. reset_password_sent_at u \<noteq> None"], case_tac f) simp_all
  from wt have eqs:
    "List.map_filter (token_written Verify_email) p
       = List.map_filter (sent_at_written Verify_email) p"
    "List.map_filter (token_written Magic_link) p
       = List.map_filter (sent_at_written Magic_link) p"
    "List.map_filter (token_written Reset_password) p
       = List.map_filter (sent_at_written Reset_password) p"
    by (simp_all add: written_together_def)
  from ok have oks:
    "(verify_email_token u \<noteq> None) = (verify_email_sent_at u \<noteq> None)"
    "(magic_link_token u \<noteq> None) = (magic_link_sent_at u \<noteq> None)"
    "(reset_password_token u \<noteq> None) = (reset_password_sent_at u \<noteq> None)"
    by (auto simp: token_pairs_ok_def paired_def)
  have "(verify_email_token (merge p u) \<noteq> None) = (verify_email_sent_at (merge p u) \<noteq> None)"
    unfolding vt vs eqs(1) oks(1) ..
  moreover
  have "(magic_link_token (merge p u) \<noteq> None) = (magic_link_sent_at (merge p u) \<noteq> None)"
    unfolding mt ms eqs(2) oks(2) ..
  moreover
  have "(reset_password_token (merge p u) \<noteq> None)
          = (reset_password_sent_at (merge p u) \<noteq> None)"
    unfolding rt rs eqs(3) oks(3) ..
  ultimately show ?thesis
    by (auto simp: token_pairs_ok_def paired_def)
qed

lemma new_user_pairs: "token_pairs_ok (new_user i)"
  by (simp add: new_user_def token_pairs_ok_def paired_def)

lemma update_inv: "store_inv s \<Longrightarrow> written_together p \<Longrightarrow> store_inv (snd (update i p s))"
  by (auto simp: store_inv_def store_simps list_all_iff merge_keeps_pairs)

lemma create_inv: "store_inv s \<Longrightarrow> written_together p \<Longrightarrow> store_inv (snd (create p s))"
  by (auto simp: store_inv_def store_simps list_all_iff merge_keeps_pairs new_user_pairs)

lemma create_inv_pair:
  "create p s = (u, s') \<Longrightarrow> store_inv s \<Longrightarrow> written_together p \<Longrightarrow> store_inv s'"
  using create_inv [of s p] by simp

lemma sendMail_inv: "store_inv (sendMail m s) = store_inv s"
  by (simp add: store_inv_def store_simps)

lemma snd_case_prod_Inr: "snd (case x of (r, s') \<Rightarrow> (g r, s')) = snd x"
  by (cases x) simp

lemma wt_simps:
  "written_together [Sign_in_count n, Last_sign_in_at t]"
  "written_together [Email em, Encrypted_password h, Last_sign_in_at t]"
  "written_together [Verify_email_token (Some tok), Verify_email_sent_at (Some d)]"
  "written_together [Email_verified b, Email_verified_at t, Verify_email_token None,
     Verify_email_sent_at None]"
  "written_together [Email_verified b]"
  "written_together [Email em, Last_sign_in_at t]"
  "written_together [Magic_link_token (Some tok), Magic_link_sent_at (Some d)]"
  "written_together [Email_verified b, Email_verified_at t, Magic_link_token None,
     Magic_link_sent_at None, Last_sign_in_at t']"
  "written_together [Reset_password_token (Some tok), Reset_password_sent_at (Some d)]"
  "written_together [Encrypted_password h, Email_verified b, Email_verified_at t,
     Reset_password_token None, Reset_password_sent_at None]"
  "written_together [Given_name gn, Family_name fn, Phone_number pn, Job jb]"
  by (simp_all add: written_together_def)

text \<open>Every call keeps the rows well paired and writes the families together.\<close>

lemma exec_inv: "store_inv s \<Longrightarrow> store_inv (exec e c s)"
proof (cases c)
  case (StartLogin em)
  assume "store_inv s"
  then show ?thesis
    by (simp add: StartLogin startLogin_def Let_def split: prod.splits)
next
  case (Login em pw)
  assume "store_inv s"
  then show ?thesis
    by (simp add: Login login_def snd_case_prod_Inr update_inv wt_simps split: option.splits)
next
  case (Signup em pw)
  assume "store_inv s"
  then show ?thesis
    by (simp add: Signup signup_def Let_def snd_case_prod_Inr create_inv wt_simps)
next
  case (SendEmailAddressVerificationEmail em chk)
  assume "store_inv s"
  then show ?thesis
    by (simp add: SendEmailAddressVerificationEmail sendEmailAddressVerificationEmail_def
        Let_def sendMail_inv update_inv wt_simps split: option.splits)
next
  case (VerifyEmail em tok)
  assume "store_inv s"
  then show ?thesis
    by (simp add: VerifyEmail verifyEmail_def Let_def snd_case_prod_Inr update_inv wt_simps
        split: option.splits)
next
  case (UpdateEmailAddressVerificationStatus em)
  assume "store_inv s"
  then show ?thesis
    by (simp add: UpdateEmailAddressVerificationStatus
        updateEmailAddressVerificationStatus_def snd_case_prod_Inr update_inv wt_simps
        split: option.splits)
next
  case (SendSendMagicLinkEmail em host)
  assume "store_inv s"
  then show ?thesis
    by (auto simp: SendSendMagicLinkEmail sendSendMagicLinkEmail_def Let_def sendMail_inv
        wt_simps split: option.splits prod.splits
        intro!: update_inv elim!: create_inv_pair)
next
  case (LoginWithMagicLink tok)
  assume "store_inv s"
  then show ?thesis
    by (simp add: LoginWithMagicLink loginWithMagicLink_def Let_def snd_case_prod_Inr
        update_inv wt_simps split: option.splits)
next
  case (SendResetPasswordEmail em host)
  assume "store_inv s"
  then show ?thesis
    by (simp add: SendResetPasswordEmail sendResetPasswordEmail_def Let_def sendMail_inv
        update_inv wt_simps split: option.splits)
next
  case (ChangePassword tok pw)
  assume "store_inv s"
  then show ?thesis
    by (simp add: ChangePassword changePassword_def Let_def snd_case_prod_Inr update_inv
        wt_simps split: option.splits)
next
  case (UpdatePersonalInformations i gn fn pn jb)
  assume "store_inv s"
  then show ?thesis
    by (simp add: UpdatePersonalInformations updatePersonalInformations_def
        snd_case_prod_Inr update_inv wt_simps)
qed


section \<open>The concrete run, evaluated\<close>

lemma rows_s_pending: "rows s_pending = [user1]"
  by (simp add: s_pending_def s_signed_up_def eval_defs user1_def)

lemma findByEmail_s_pending: "findByEmail s_pending ''a@b.com'' = Some user1"
  by (simp add: findByEmail_def rows_s_pending user1_def email_key_def lower_char_def)


lemma findByMagicLinkToken_s_pending: "findByMagicLinkToken s_pending ''tok-1'' = Some user1"
  by (simp add: findByMagicLinkToken_def rows_s_pending user1_def)

lemma findByResetPasswordToken_s_pending:
  "findByResetPasswordToken s_pending ''tok-1'' = Some user1"
  by (simp add: findByResetPasswordToken_def rows_s_pending user1_def)

lemma update_returns_merged:
  assumes "u \<in> set (rows s)"
  shows "\<exists>r\<in>set (rows s). id_user r = id_user u
           \<and> fst (update (id_user u) p s) = Some (merge p r)"
  using find_id_after_update [OF assms, of "merge p"]
  by (simp add: update_def Let_def id_user_merge)

section \<open>Token pairs\<close>

text \<open>
  C1. In every state the manager's operations reach from the empty store, each row has
  each token and its \<open>_sent_at\<close> timestamp both null or both set, and every write issued
  to the store sets or clears a token together with its timestamp, in the same partial
  user.
\<close>

theorem token_pairs_invariant:
  "reachable s \<Longrightarrow>
     (\<forall>u\<in>set (rows s). token_pairs_ok u)
     \<and> (\<forall>w\<in>set (writes s). written_together (payload w))"
proof (induction rule: reachable.induct)
  case reachable_empty
  show ?case by (simp add: empty_state_def)
next
  case (reachable_exec s e c)
  then have "store_inv s" by (simp add: store_inv_def list_all_iff)
  then have "store_inv (exec e c s)" by (rule exec_inv)
  then show ?case by (simp add: store_inv_def list_all_iff)
qed

theorem token_pairs_invariant_witness:
  "reachable s_pending
   \<and> list_all token_pairs_ok (rows s_pending)
   \<and> list_all (\<lambda>w. written_together (payload w)) (writes s_pending)
   \<and> map verify_email_token (rows s_pending) = [Some ''123456'']
   \<and> map verify_email_sent_at (rows s_pending) = [Some 1000000]
   \<and> map magic_link_token (rows s_pending) = [Some ''tok-1'']
   \<and> map magic_link_sent_at (rows s_pending) = [Some 1000000]
   \<and> length (writes s_pending) = 4"
proof -
  have r: "reachable s_pending"
    unfolding s_pending_def s_signed_up_def by (intro reachable.intros)
  have "map verify_email_token (rows s_pending) = [Some ''123456'']"
    and "map verify_email_sent_at (rows s_pending) = [Some 1000000]"
    and "map magic_link_token (rows s_pending) = [Some ''tok-1'']"
    and "map magic_link_sent_at (rows s_pending) = [Some 1000000]"
    and "length (writes s_pending) = 4"
    by (simp_all add: s_pending_def s_signed_up_def eval_defs)
  with r token_pairs_invariant [OF r] show ?thesis by (simp add: list_all_iff)
qed

section \<open>Non-enumeration\<close>



section \<open>Magic-link login\<close>

text \<open>
  C3. \<open>loginWithMagicLink\<close> rejects with \<open>InvalidMagicLinkError\<close> exactly when the token
  is empty, no row matches it, or the matching row's token is expired, and it rejects
  with nothing else; the empty token is rejected in every state. Otherwise it resolves
  to a row with \<open>magic_link_token\<close> and \<open>magic_link_sent_at\<close> cleared, \<open>email_verified\<close>
  true, \<open>email_verified_at\<close> and \<open>last_sign_in_at\<close> at the current time, by one update of
  the matching row's identifier.
\<close>

theorem loginWithMagicLink_outcomes:
  "(fst (loginWithMagicLink e token s) = Inl InvalidMagicLinkError
      \<longleftrightarrow> token = [] \<or> findByMagicLinkToken s token = None
          \<or> (\<exists>u. findByMagicLinkToken s token = Some u
                \<and> isExpired e (magic_link_sent_at u)
                     (MAGIC_LINK_TOKEN_EXPIRATION_DURATION_IN_MINUTES e)))
   \<and> (isl (fst (loginWithMagicLink e token s))
        \<longrightarrow> loginWithMagicLink e token s = (Inl InvalidMagicLinkError, s))
   \<and> loginWithMagicLink e [] s = (Inl InvalidMagicLinkError, s)
   \<and> (token \<noteq> [] \<and> findByMagicLinkToken s token = Some u
        \<and> \<not> isExpired e (magic_link_sent_at u)
              (MAGIC_LINK_TOKEN_EXPIRATION_DURATION_IN_MINUTES e)
      \<longrightarrow> (\<exists>u'. loginWithMagicLink e token s =
                  (Inr (Some u'),
                   s\<lparr>rows := map (\<lambda>r. if id_user r = id_user u
                                       then r\<lparr>email_verified := True,
                                              email_verified_at := Some (now e),
                                              magic_link_token := None,
                                              magic_link_sent_at := None,
                                              last_sign_in_at := Some (now e)\<rparr>
                                       else r) (rows s),
                     writes := writes s @
                       [Update (id_user u)
                          [Email_verified True, Email_verified_at (Some (now e)),
                           Magic_link_token None, Magic_link_sent_at None,
                           Last_sign_in_at (Some (now e))]]\<rparr>)
               \<and> id_user u' = id_user u
               \<and> magic_link_token u' = None \<and> magic_link_sent_at u' = None
               \<and> email_verified u' \<and> email_verified_at u' = Some (now e)
               \<and> last_sign_in_at u' = Some (now e)))"
proof (intro conjI impI)
  show "(fst (loginWithMagicLink e token s) = Inl InvalidMagicLinkError)
      = (token = [] \<or> findByMagicLinkToken s token = None
          \<or> (\<exists>u. findByMagicLinkToken s token = Some u
                \<and> isExpired e (magic_link_sent_at u)
                     (MAGIC_LINK_TOKEN_EXPIRATION_DURATION_IN_MINUTES e)))"
    by (simp add: loginWithMagicLink_def Let_def split: option.splits prod.splits)
next
  assume "isl (fst (loginWithMagicLink e token s))"
  then show "loginWithMagicLink e token s = (Inl InvalidMagicLinkError, s)"
    by (simp add: loginWithMagicLink_def Let_def split: option.splits prod.splits if_splits)
next
  show "loginWithMagicLink e [] s = (Inl InvalidMagicLinkError, s)"
    by (simp add: loginWithMagicLink_def)
next
  let ?p = "[Email_verified True, Email_verified_at (Some (now e)),
             Magic_link_token None, Magic_link_sent_at None,
             Last_sign_in_at (Some (now e))]"
  assume a: "token \<noteq> [] \<and> findByMagicLinkToken s token = Some u
        \<and> \<not> isExpired e (magic_link_sent_at u)
              (MAGIC_LINK_TOKEN_EXPIRATION_DURATION_IN_MINUTES e)"
  then have "u \<in> set (rows s)"
    by (auto simp: findByMagicLinkToken_def dest: find_Some_mem)
  from update_returns_merged [OF this, of ?p]
  obtain r where r: "id_user r = id_user u"
      "fst (update (id_user u) ?p s) = Some (merge ?p r)"
    by blast
  from a have "loginWithMagicLink e token s =
      (Inr (fst (update (id_user u) ?p s)), snd (update (id_user u) ?p s))"
    by (simp add: loginWithMagicLink_def Let_def split: prod.splits)
  with r show "\<exists>u'. loginWithMagicLink e token s =
                  (Inr (Some u'),
                   s\<lparr>rows := map (\<lambda>r. if id_user r = id_user u
                                       then r\<lparr>email_verified := True,
                                              email_verified_at := Some (now e),
                                              magic_link_token := None,
                                              magic_link_sent_at := None,
                                              last_sign_in_at := Some (now e)\<rparr>
                                       else r) (rows s),
                     writes := writes s @
                       [Update (id_user u)
                          [Email_verified True, Email_verified_at (Some (now e)),
                           Magic_link_token None, Magic_link_sent_at None,
                           Last_sign_in_at (Some (now e))]]\<rparr>)
               \<and> id_user u' = id_user u
               \<and> magic_link_token u' = None \<and> magic_link_sent_at u' = None
               \<and> email_verified u' \<and> email_verified_at u' = Some (now e)
               \<and> last_sign_in_at u' = Some (now e)"
    by (simp add: update_def Let_def)
qed

theorem loginWithMagicLink_outcomes_witness:
  "''tok-1'' \<noteq> [] \<and> findByMagicLinkToken s_pending ''tok-1'' = Some user1
   \<and> \<not> isExpired env0 (magic_link_sent_at user1)
         (MAGIC_LINK_TOKEN_EXPIRATION_DURATION_IN_MINUTES env0)
   \<and> (\<exists>u'. fst (loginWithMagicLink env0 ''tok-1'' s_pending) = Inr (Some u')
          \<and> magic_link_token u' = None \<and> magic_link_sent_at u' = None
          \<and> email_verified u' \<and> email_verified_at u' = Some 1000000
          \<and> last_sign_in_at u' = Some 1000000)
   \<and> map magic_link_token (rows s_signed_up) = [None]
   \<and> isl (fst (loginWithMagicLink env0 [] s_signed_up))
   \<and> loginWithMagicLink env0 [] s_signed_up = (Inl InvalidMagicLinkError, s_signed_up)"
proof -
  have h: "''tok-1'' \<noteq> [] \<and> findByMagicLinkToken s_pending ''tok-1'' = Some user1
     \<and> \<not> isExpired env0 (magic_link_sent_at user1)
           (MAGIC_LINK_TOKEN_EXPIRATION_DURATION_IN_MINUTES env0)"
    by (simp add: findByMagicLinkToken_s_pending) (simp add: user1_def isExpired_def env0_def)
  have n: "now env0 = 1000000" by (simp add: env0_def)
  have m: "map magic_link_token (rows s_signed_up) = [None]"
    by (simp add: s_signed_up_def eval_defs)
  have i: "isl (fst (loginWithMagicLink env0 [] s_signed_up))"
    by (simp add: loginWithMagicLink_def)
  from loginWithMagicLink_outcomes [of env0 "''tok-1''" s_pending user1] h
  have "\<exists>u'. fst (loginWithMagicLink env0 ''tok-1'' s_pending) = Inr (Some u')
          \<and> magic_link_token u' = None \<and> magic_link_sent_at u' = None
          \<and> email_verified u' \<and> email_verified_at u' = Some 1000000
          \<and> last_sign_in_at u' = Some 1000000"
    unfolding n by fastforce
  moreover from loginWithMagicLink_outcomes [of env0 "[]" s_signed_up user1] i
  have "loginWithMagicLink env0 [] s_signed_up = (Inl InvalidMagicLinkError, s_signed_up)"
    by blast
  ultimately show ?thesis using h m i by blast
qed

section \<open>Password change refused by the policy\<close>

text \<open>
  C4. With a reset-password token that is not empty, matches a row and is not expired, a
  password the policy rejects makes \<open>changePassword\<close> reject with \<open>WeakPasswordError\<close>,
  and one the policy accepts but the breach corpus holds with \<open>LeakedPasswordError\<close>;
  either way the state is the one before the call: no row and no write changes, and the
  token still finds the same row, with its password hash and its token pair.
\<close>

theorem changePassword_policy_failure_atomic:
  assumes "token \<noteq> []"
    and "findByResetPasswordToken s token = Some u"
    and "\<not> isExpired e (reset_password_sent_at u)
            (RESET_PASSWORD_TOKEN_EXPIRATION_DURATION_IN_MINUTES e)"
    and "\<not> isPasswordSecure e password (email u) \<or> hasPasswordBeenPwned e password"
  shows "changePassword e token password s =
           (Inl (if \<not> isPasswordSecure e password (email u) then WeakPasswordError
                 else LeakedPasswordError), s)
     \<and> rows (snd (changePassword e token password s)) = rows s
     \<and> writes (snd (changePassword e token password s)) = writes s
     \<and> findByResetPasswordToken (snd (changePassword e token password s)) token = Some u"
  using assms by (auto simp: changePassword_def Let_def)

theorem changePassword_policy_failure_atomic_witness:
  "''tok-1'' \<noteq> [] \<and> findByResetPasswordToken s_pending ''tok-1'' = Some user1
   \<and> \<not> isExpired env0 (reset_password_sent_at user1)
         (RESET_PASSWORD_TOKEN_EXPIRATION_DURATION_IN_MINUTES env0)
   \<and> \<not> isPasswordSecure env0 ''secret'' (email user1)
   \<and> isPasswordSecure env0 ''password1234'' (email user1)
   \<and> hasPasswordBeenPwned env0 ''password1234''
   \<and> changePassword env0 ''tok-1'' ''secret'' s_pending = (Inl WeakPasswordError, s_pending)
   \<and> changePassword env0 ''tok-1'' ''password1234'' s_pending
       = (Inl LeakedPasswordError, s_pending)
   \<and> encrypted_password user1 = Some ''h:Password123!''
   \<and> reset_password_token user1 = Some ''tok-1''
   \<and> reset_password_sent_at user1 = Some 1000000"
proof -
  have h1: "''tok-1'' \<noteq> []" by simp
  have h2: "findByResetPasswordToken s_pending ''tok-1'' = Some user1"
    by (rule findByResetPasswordToken_s_pending)
  have h3: "\<not> isExpired env0 (reset_password_sent_at user1)
         (RESET_PASSWORD_TOKEN_EXPIRATION_DURATION_IN_MINUTES env0)"
    by (simp add: user1_def isExpired_def env0_def)
  have w: "\<not> isPasswordSecure env0 ''secret'' (email user1)"
    by (simp add: env0_def)
  have l: "isPasswordSecure env0 ''password1234'' (email user1)"
      "hasPasswordBeenPwned env0 ''password1234''"
    by (simp_all add: env0_def user1_def)
  have u: "encrypted_password user1 = Some ''h:Password123!''"
      "reset_password_token user1 = Some ''tok-1''"
      "reset_password_sent_at user1 = Some 1000000"
    by (simp_all add: user1_def)
  from changePassword_policy_failure_atomic [OF h1 h2 h3, of "''secret''"] w
  have "changePassword env0 ''tok-1'' ''secret'' s_pending = (Inl WeakPasswordError, s_pending)"
    by simp
  moreover
  from changePassword_policy_failure_atomic [OF h1 h2 h3, of "''password1234''"] l
  have "changePassword env0 ''tok-1'' ''password1234'' s_pending
          = (Inl LeakedPasswordError, s_pending)"
    by simp
  ultimately show ?thesis using h1 h2 h3 w l u by blast
qed

section \<open>Re-issue of the verification email\<close>



section \<open>Signup\<close>

text \<open>
  C6. \<open>signup\<close> rejects with \<open>EmailUnavailableError\<close> when a row exists for the email,
  else with \<open>WeakPasswordError\<close> when the password fails the policy, else with
  \<open>LeakedPasswordError\<close> when the breach corpus holds it; otherwise it appends exactly one
  row, of a fresh identifier, with the email, \<open>encrypted_password\<close> the hash of the
  password and \<open>email_verified\<close> false.
\<close>

theorem signup_outcomes:
  "signup e em password s =
     (if findByEmail s em \<noteq> None then (Inl EmailUnavailableError, s)
      else if \<not> isPasswordSecure e password em then (Inl WeakPasswordError, s)
      else if hasPasswordBeenPwned e password then (Inl LeakedPasswordError, s)
      else (Inr ((new_user (fresh_id (rows s)))
                   \<lparr>email := em,
                    encrypted_password := Some (hashPassword e password),
                    last_sign_in_at := Some (now e)\<rparr>),
            s\<lparr>rows := rows s @
                 [(new_user (fresh_id (rows s)))
                    \<lparr>email := em,
                     encrypted_password := Some (hashPassword e password),
                     last_sign_in_at := Some (now e)\<rparr>],
              writes := writes s @
                 [Create (fresh_id (rows s))
                    [Email em, Encrypted_password (Some (hashPassword e password)),
                     Last_sign_in_at (Some (now e))]]\<rparr>))
   \<and> (\<not> isl (fst (signup e em password s)) \<longrightarrow>
        (\<exists>u. fst (signup e em password s) = Inr u
           \<and> rows (snd (signup e em password s)) = rows s @ [u]
           \<and> email u = em
           \<and> encrypted_password u = Some (hashPassword e password)
           \<and> \<not> email_verified u
           \<and> id_user u \<notin> id_user ` set (rows s)
           \<and> findByEmail (snd (signup e em password s)) em = Some u))"
proof (intro conjI impI)
  show "signup e em password s =
     (if findByEmail s em \<noteq> None then (Inl EmailUnavailableError, s)
      else if \<not> isPasswordSecure e password em then (Inl WeakPasswordError, s)
      else if hasPasswordBeenPwned e password then (Inl LeakedPasswordError, s)
      else (Inr ((new_user (fresh_id (rows s)))
                   \<lparr>email := em,
                    encrypted_password := Some (hashPassword e password),
                    last_sign_in_at := Some (now e)\<rparr>),
            s\<lparr>rows := rows s @
                 [(new_user (fresh_id (rows s)))
                    \<lparr>email := em,
                     encrypted_password := Some (hashPassword e password),
                     last_sign_in_at := Some (now e)\<rparr>],
              writes := writes s @
                 [Create (fresh_id (rows s))
                    [Email em, Encrypted_password (Some (hashPassword e password)),
                     Last_sign_in_at (Some (now e))]]\<rparr>))"
    by (simp add: signup_def create_def Let_def new_user_def)
next
  assume ok: "\<not> isl (fst (signup e em password s))"
  then have none: "findByEmail s em = None"
    by (auto simp: signup_def split: if_splits)
  have fresh: "fresh_id (rows s) \<notin> id_user ` set (rows s)"
    using fresh_id_gt [of _ "rows s"] by fastforce
  from ok none show "\<exists>u. fst (signup e em password s) = Inr u
           \<and> rows (snd (signup e em password s)) = rows s @ [u]
           \<and> email u = em
           \<and> encrypted_password u = Some (hashPassword e password)
           \<and> \<not> email_verified u
           \<and> id_user u \<notin> id_user ` set (rows s)
           \<and> findByEmail (snd (signup e em password s)) em = Some u"
    using fresh
    by (auto simp: signup_def create_def Let_def new_user_def findByEmail_def find_snoc
        split: if_splits)
qed

theorem signup_outcomes_witness:
  "\<not> isl (fst (signup env0 ''a@b.com'' ''Password123!'' empty_state))
   \<and> (\<exists>u. fst (signup env0 ''a@b.com'' ''Password123!'' empty_state) = Inr u
         \<and> rows (snd (signup env0 ''a@b.com'' ''Password123!'' empty_state)) = [u]
         \<and> email u = ''a@b.com''
         \<and> encrypted_password u = Some ''h:Password123!''
         \<and> \<not> email_verified u)
   \<and> signup env0 ''A@b.com'' ''Password123!'' s_signed_up
        = (Inl EmailUnavailableError, s_signed_up)
   \<and> signup env0 ''c@d.com'' ''secret'' s_signed_up = (Inl WeakPasswordError, s_signed_up)
   \<and> signup env0 ''c@d.com'' ''password1234'' s_signed_up
        = (Inl LeakedPasswordError, s_signed_up)"
proof -
  have ok: "\<not> isl (fst (signup env0 ''a@b.com'' ''Password123!'' empty_state))"
    by (simp add: eval_defs)
  have h: "hashPassword env0 ''Password123!'' = ''h:Password123!''"
    by (simp add: env0_def)
  have r: "rows empty_state = []" by (simp add: empty_state_def)
  have f: "findByEmail s_signed_up ''A@b.com'' \<noteq> None"
    "findByEmail s_signed_up ''c@d.com'' = None"
    by (simp_all add: s_signed_up_def eval_defs)
  have p: "\<not> isPasswordSecure env0 ''secret'' ''c@d.com''"
    "isPasswordSecure env0 ''password1234'' ''c@d.com''"
    "hasPasswordBeenPwned env0 ''password1234''"
    by (simp_all add: env0_def)
  from signup_outcomes [of env0 "''a@b.com''" "''Password123!''" empty_state] ok
  have "\<exists>u. fst (signup env0 ''a@b.com'' ''Password123!'' empty_state) = Inr u
         \<and> rows (snd (signup env0 ''a@b.com'' ''Password123!'' empty_state)) = [u]
         \<and> email u = ''a@b.com''
         \<and> encrypted_password u = Some ''h:Password123!''
         \<and> \<not> email_verified u"
    unfolding h r by fastforce
  moreover
  from signup_outcomes [of env0 "''A@b.com''" "''Password123!''" s_signed_up] f
  have "signup env0 ''A@b.com'' ''Password123!'' s_signed_up
        = (Inl EmailUnavailableError, s_signed_up)"
    by simp
  moreover
  from signup_outcomes [of env0 "''c@d.com''" "''secret''" s_signed_up] f p
  have "signup env0 ''c@d.com'' ''secret'' s_signed_up = (Inl WeakPasswordError, s_signed_up)"
    by simp
  moreover
  from signup_outcomes [of env0 "''c@d.com''" "''password1234''" s_signed_up] f p
  have "signup env0 ''c@d.com'' ''password1234'' s_signed_up
        = (Inl LeakedPasswordError, s_signed_up)"
    by simp
  ultimately show ?thesis using ok by blast
qed

section \<open>Expiration clock: the boundary\<close>

text \<open>
  C7. \<open>isExpired(sentAt, durationMinutes)\<close> is true exactly when \<open>now - sentAt\<close> strictly
  exceeds the duration: it is false when exactly \<open>durationMinutes\<close> have elapsed and true
  at every strictly greater elapsed time.
\<close>

theorem isExpired_strict_boundary:
  "(isExpired e (Some sentAt) d \<longleftrightarrow> now e - sentAt > d * 60000)
   \<and> \<not> isExpired (e\<lparr>now := sentAt + d * 60000\<rparr>) (Some sentAt) d
   \<and> (\<forall>\<epsilon>>0. isExpired (e\<lparr>now := sentAt + d * 60000 + \<epsilon>\<rparr>) (Some sentAt) d)"
  by (simp add: isExpired_def)

theorem isExpired_strict_boundary_witness:
  "(0::int) < 1
   \<and> \<not> isExpired (env0\<lparr>now := 500 + 60 * 60000\<rparr>) (Some 500) 60
   \<and> isExpired (env0\<lparr>now := 500 + 60 * 60000 + 1\<rparr>) (Some 500) 60"
proof -
  note b = isExpired_strict_boundary [of env0 500 60]
  from b have "\<not> isExpired (env0\<lparr>now := 500 + 60 * 60000\<rparr>) (Some 500) 60"
    by blast
  moreover from b
  have "\<forall>\<epsilon>>0. isExpired (env0\<lparr>now := 500 + 60 * 60000 + \<epsilon>\<rparr>) (Some 500) 60"
    by blast
  then have "isExpired (env0\<lparr>now := 500 + 60 * 60000 + 1\<rparr>) (Some 500) 60"
    by (rule allE [of _ 1]) simp
  ultimately show ?thesis by simp
qed

section \<open>Store writes of a call\<close>




section \<open>Frame of a password login\<close>

text \<open>
  C9. A successful password login issues one update whose partial user holds only
  \<open>sign_in_count\<close> and \<open>last_sign_in_at\<close>; under the merge every row keeps all its other
  fields (the rows agree with those before the call once these two fields are blanked),
  so the token pairs, \<open>email_verified\<close> and \<open>encrypted_password\<close> are unchanged and the
  lookups by magic-link and reset-password token find the same rows as before.
\<close>

theorem login_writes_only_sign_in_fields:
  assumes "findByEmail s em = Some u"
    and "validatePassword e password (encrypted_password u)"
  shows "(\<exists>r. login e em password s =
            (Inr r,
             s\<lparr>rows := map (\<lambda>r. if id_user r = id_user u
                                 then r\<lparr>sign_in_count := sign_in_count u + 1,
                                        last_sign_in_at := Some (now e)\<rparr>
                                 else r) (rows s),
               writes := writes s @
                 [Update (id_user u)
                    [Sign_in_count (sign_in_count u + 1),
                     Last_sign_in_at (Some (now e))]]\<rparr>))
     \<and> map login_frame (rows (snd (login e em password s))) = map login_frame (rows s)
     \<and> findByEmail (snd (login e em password s)) em
         = Some (u\<lparr>sign_in_count := sign_in_count u + 1, last_sign_in_at := Some (now e)\<rparr>)
     \<and> map_option login_frame (findByMagicLinkToken (snd (login e em password s)) tok)
         = map_option login_frame (findByMagicLinkToken s tok)
     \<and> map_option login_frame (findByResetPasswordToken (snd (login e em password s)) tok)
         = map_option login_frame (findByResetPasswordToken s tok)"
proof -
  let ?p = "[Sign_in_count (sign_in_count u + 1), Last_sign_in_at (Some (now e))]"
  let ?s' = "snd (login e em password s)"
  from assms have l: "login e em password s =
      (Inr (fst (update (id_user u) ?p s)), snd (update (id_user u) ?p s))"
    by (simp add: login_def split: prod.splits)
  then have 1: "\<exists>r. login e em password s =
            (Inr r,
             s\<lparr>rows := map (\<lambda>r. if id_user r = id_user u
                                 then r\<lparr>sign_in_count := sign_in_count u + 1,
                                        last_sign_in_at := Some (now e)\<rparr>
                                 else r) (rows s),
               writes := writes s @
                 [Update (id_user u)
                    [Sign_in_count (sign_in_count u + 1),
                     Last_sign_in_at (Some (now e))]]\<rparr>)"
    by (simp add: update_def Let_def)
  from l have rows': "rows ?s' = map (\<lambda>r. if id_user r = id_user u then merge ?p r else r) (rows s)"
    by (simp add: store_simps)
  have 2: "map login_frame (rows ?s') = map login_frame (rows s)"
    unfolding rows' by (simp add: login_frame_def)
  from assms(1)
  have "List.find (\<lambda>r. email_key (email r) = email_key em)
          (map (\<lambda>r. if id_user r = id_user u then merge ?p r else r) (rows s))
        = Some (merge ?p u)"
    unfolding findByEmail_def by (rule find_map_update) simp
  then have 3: "findByEmail ?s' em
         = Some (u\<lparr>sign_in_count := sign_in_count u + 1, last_sign_in_at := Some (now e)\<rparr>)"
    by (simp add: findByEmail_def rows')
  have 4: "map_option login_frame (findByMagicLinkToken ?s' tok)
         = map_option login_frame (findByMagicLinkToken s tok)"
    unfolding findByMagicLinkToken_def
    by (rule find_frame [OF 2, of _ "\<lambda>r. magic_link_token r = Some tok"])
       (simp add: login_frame_def)
  have 5: "map_option login_frame (findByResetPasswordToken ?s' tok)
         = map_option login_frame (findByResetPasswordToken s tok)"
    unfolding findByResetPasswordToken_def
    by (rule find_frame [OF 2, of _ "\<lambda>r. reset_password_token r = Some tok"])
       (simp add: login_frame_def)
  from 1 2 3 4 5 show ?thesis by blast
qed

theorem login_writes_only_sign_in_fields_witness:
  "findByEmail s_pending ''a@b.com'' = Some user1
   \<and> validatePassword env0 ''Password123!'' (encrypted_password user1)
   \<and> findByEmail (snd (login env1 ''a@b.com'' ''Password123!'' s_pending)) ''a@b.com''
       = Some (user1\<lparr>sign_in_count := 1, last_sign_in_at := Some 1060000\<rparr>)
   \<and> findByMagicLinkToken (snd (login env1 ''a@b.com'' ''Password123!'' s_pending)) ''tok-1''
       \<noteq> None
   \<and> map_option login_frame
         (findByMagicLinkToken (snd (login env1 ''a@b.com'' ''Password123!'' s_pending)) ''tok-1'')
       = Some (login_frame user1)"
proof -
  have h1: "findByEmail s_pending ''a@b.com'' = Some user1"
    by (rule findByEmail_s_pending)
  have h2: "validatePassword env1 ''Password123!'' (encrypted_password user1)"
    by (simp add: env1_def env0_def user1_def)
  have h2': "validatePassword env0 ''Password123!'' (encrypted_password user1)"
    by (simp add: env0_def user1_def)
  have n: "now env1 = 1060000" "sign_in_count user1 + 1 = 1"
    by (simp_all add: env1_def user1_def)
  note t = login_writes_only_sign_in_fields [OF h1 h2, of "''tok-1''"]
  from t have a: "findByEmail (snd (login env1 ''a@b.com'' ''Password123!'' s_pending)) ''a@b.com''
       = Some (user1\<lparr>sign_in_count := 1, last_sign_in_at := Some 1060000\<rparr>)"
    by (simp add: n)
  from t have b: "map_option login_frame
         (findByMagicLinkToken (snd (login env1 ''a@b.com'' ''Password123!'' s_pending)) ''tok-1'')
       = Some (login_frame user1)"
    by (simp add: findByMagicLinkToken_s_pending)
  then have c: "findByMagicLinkToken (snd (login env1 ''a@b.com'' ''Password123!'' s_pending))
                  ''tok-1'' \<noteq> None"
    by auto
  from h1 h2' a b c show ?thesis by blast
qed

section \<open>Re-issue of the magic link\<close>

text \<open>
  C10. Every call of \<open>sendSendMagicLinkEmail\<close> resolves to true and leaves, for the
  email, a row whose \<open>magic_link_token\<close> is the fresh token and whose
  \<open>magic_link_sent_at\<close> is the current time; for an existing user this is the user's row
  with the pair overwritten, whatever pair it held before.
\<close>

theorem magic_link_reissue_overwrites:
  "fst (sendSendMagicLinkEmail e em host s) = Inr True
   \<and> (\<exists>u'. findByEmail (snd (sendSendMagicLinkEmail e em host s)) em = Some u'
          \<and> magic_link_token u' = Some (generateToken e)
          \<and> magic_link_sent_at u' = Some (now e))
   \<and> (findByEmail s em = Some u \<longrightarrow>
        findByEmail (snd (sendSendMagicLinkEmail e em host s)) em
          = Some (u\<lparr>magic_link_token := Some (generateToken e),
                    magic_link_sent_at := Some (now e)\<rparr>))"
proof -
  let ?p = "[Magic_link_token (Some (generateToken e)), Magic_link_sent_at (Some (now e))]"
  let ?s' = "snd (sendSendMagicLinkEmail e em host s)"
  have 1: "fst (sendSendMagicLinkEmail e em host s) = Inr True"
    by (simp add: sendSendMagicLinkEmail_def Let_def split: prod.splits)
  have known: "findByEmail ?s' em = Some (merge ?p v)" if v: "findByEmail s em = Some v" for v
  proof -
    from v have "rows ?s' = map (\<lambda>r. if id_user r = id_user v then merge ?p r else r) (rows s)"
      by (simp add: sendSendMagicLinkEmail_def Let_def store_simps)
    moreover from v
    have "List.find (\<lambda>r. email_key (email r) = email_key em)
            (map (\<lambda>r. if id_user r = id_user v then merge ?p r else r) (rows s))
          = Some (merge ?p v)"
      unfolding findByEmail_def by (rule find_map_update) simp
    ultimately show ?thesis by (simp add: findByEmail_def)
  qed
  have new: "findByEmail ?s' em
      = Some (merge ?p (merge [Email em, Last_sign_in_at (Some (now e))]
                          (new_user (fresh_id (rows s)))))"
    if n: "findByEmail s em = None"
  proof -
    let ?c = "[Email em, Last_sign_in_at (Some (now e))]"
    let ?u0 = "merge ?c (new_user (fresh_id (rows s)))"
    have i: "id_user ?u0 = fresh_id (rows s)" by (simp add: new_user_def)
    from n have "?s' = sendMail
           \<lparr>to = [email ?u0],
            subject = ''Lien de connexion '' @ [CHR 0xE0] @ '' MonComptePro'',
            template = ''magic-link'',
            params = [(''magic_link'',
                       host @ ''/users/sign-in-with-magic-link?magic_link_token=''
                         @ generateToken e)]\<rparr>
           (snd (update (id_user ?u0) ?p (snd (create ?c s))))"
      by (simp add: sendSendMagicLinkEmail_def Let_def create_def)
    then have "rows ?s' = map (\<lambda>r. if id_user r = fresh_id (rows s) then merge ?p r else r)
                            (rows s @ [?u0])"
      by (simp only: store_simps i)
    then have "rows ?s' = rows s @ [merge ?p ?u0]"
      by (simp only: map_append map_unchanged_fresh) (simp add: new_user_def)
    with n show ?thesis
      by (simp add: findByEmail_def find_snoc)
  qed
  show ?thesis
  proof (cases "findByEmail s em")
    case None
    from new [OF None] 1 None show ?thesis by simp
  next
    case (Some v)
    from known [OF Some] 1 Some show ?thesis by simp
  qed
qed

theorem magic_link_reissue_overwrites_witness:
  "findByEmail s_pending ''a@b.com'' = Some user1
   \<and> magic_link_token user1 = Some ''tok-1''
   \<and> \<not> isExpired env1 (magic_link_sent_at user1)
         (MAGIC_LINK_TOKEN_EXPIRATION_DURATION_IN_MINUTES env1)
   \<and> findByEmail (snd (sendSendMagicLinkEmail env1 ''a@b.com'' ''https://host'' s_pending))
        ''a@b.com''
       = Some (user1\<lparr>magic_link_token := Some ''tok-2'', magic_link_sent_at := Some 1060000\<rparr>)"
proof -
  have h: "findByEmail s_pending ''a@b.com'' = Some user1"
    by (rule findByEmail_s_pending)
  have p: "magic_link_token user1 = Some ''tok-1''"
    "\<not> isExpired env1 (magic_link_sent_at user1)
         (MAGIC_LINK_TOKEN_EXPIRATION_DURATION_IN_MINUTES env1)"
    by (simp_all add: user1_def isExpired_def env1_def env0_def)
  have n: "now env1 = 1060000" "generateToken env1 = ''tok-2''"
    by (simp_all add: env1_def)
  from magic_link_reissue_overwrites [of env1 "''a@b.com''" "''https://host''" s_pending user1] h
  have "findByEmail (snd (sendSendMagicLinkEmail env1 ''a@b.com'' ''https://host'' s_pending))
        ''a@b.com''
       = Some (user1\<lparr>magic_link_token := Some ''tok-2'', magic_link_sent_at := Some 1060000\<rparr>)"
    by (simp add: n)
  with h p show ?thesis by blast
qed

end
